theory Spec2Isabelle
  imports Main
begin

section \<open>The SSH remote client of bit: a shallow embedding\<close>

text \<open>
  The embedded program is the class \<open>SSH\<close> with its module-level helpers
  \<open>absolutePath\<close>, \<open>clean\<close> and \<open>errorHandler\<close>. A JavaScript string is a
  \<^typ>\<open>string\<close> (a list of bytes), a promise is the value it settles to
  (\<open>Inl\<close> a rejection, \<open>Inr\<close> a resolution), and a value that may be \<open>null\<close> or
  \<open>undefined\<close> is an \<^typ>\<open>'a option\<close> with \<open>None\<close> for both.
\<close>

subsection \<open>Base64 transport encoding\<close>

text \<open>
  Modelled from the spec: \<open>toBase64\<close> and \<open>fromBase64\<close> are imported from the
  repository's \<open>utils\<close>, whose source is not available. The spec asks for base64 that
  is reversible on byte strings; the model is the standard alphabet with \<open>=\<close> padding.
  The decoder is the lenient one of the platform: it stops at the first \<open>=\<close>, skips
  every character outside the alphabet, and never raises.
\<close>

definition b64char :: "nat \<Rightarrow> char" where
  "b64char n =
     (if n < 26 then char_of (65 + n)
      else if n < 52 then char_of (71 + n)
      else if n < 62 then char_of (n - 4)
      else if n = 62 then CHR ''+''
      else CHR ''/'')"

definition b64val :: "char \<Rightarrow> nat option" where
  "b64val c =
     (let k = (of_char c :: nat) in
      if 65 \<le> k \<and> k \<le> 90 then Some (k - 65)
      else if 97 \<le> k \<and> k \<le> 122 then Some (k - 71)
      else if 48 \<le> k \<and> k \<le> 57 then Some (k + 4)
      else if k = 43 then Some 62
      else if k = 47 then Some 63
      else None)"

fun encode3 :: "nat list \<Rightarrow> string" where
  "encode3 (a # b # c # rest) =
     b64char (a div 4) # b64char ((a mod 4) * 16 + b div 16) #
     b64char ((b mod 16) * 4 + c div 64) # b64char (c mod 64) # encode3 rest"
| "encode3 [a, b] =
     [b64char (a div 4), b64char ((a mod 4) * 16 + b div 16),
      b64char ((b mod 16) * 4), CHR ''='']"
| "encode3 [a] = [b64char (a div 4), b64char ((a mod 4) * 16), CHR ''='', CHR ''='']"
| "encode3 [] = []"

fun decode4 :: "nat list \<Rightarrow> string" where
  "decode4 (p # q # r # s # rest) =
     char_of (p * 4 + q div 16) # char_of ((q mod 16) * 16 + r div 4) #
     char_of ((r mod 4) * 64 + s) # decode4 rest"
| "decode4 [p, q, r] = [char_of (p * 4 + q div 16), char_of ((q mod 16) * 16 + r div 4)]"
| "decode4 [p, q] = [char_of (p * 4 + q div 16)]"
| "decode4 _ = []"

definition sextets :: "string \<Rightarrow> nat list" where
  "sextets s = List.map_filter b64val (takeWhile (\<lambda>c. c \<noteq> CHR ''='') s)"

definition toBase64 :: "string \<Rightarrow> string" where
  "toBase64 val = encode3 (map of_char val)"

definition fromBase64 :: "string \<Rightarrow> string" where
  "fromBase64 base64 = decode4 (sextets base64)"

subsection \<open>Module-level helpers\<close>

definition startsWith :: "string \<Rightarrow> string \<Rightarrow> bool" where
  "startsWith s p = (take (length p) s = p)"

text \<open>\<open>Array.prototype.join\<close>: the separator goes between elements only.\<close>

fun join :: "string \<Rightarrow> string list \<Rightarrow> string" where
  "join sep [] = []"
| "join sep [x] = x"
| "join sep (x # y # ys) = x @ sep @ join sep (y # ys)"

definition absolutePath :: "string \<Rightarrow> string" where
  "absolutePath path = (if \<not> startsWith path ''/'' then ''~/'' @ path else path)"

text \<open>
  \<open>str.replace('\n', '')\<close> with a string pattern replaces the first occurrence only.
\<close>

fun clean :: "string \<Rightarrow> string" where
  "clean [] = []"
| "clean (c # cs) = (if c = CHR 0x0A then cs else c # clean cs)"

subsection \<open>Failures\<close>

text \<open>
  The exception classes the module constructs, one constructor each. \<open>TypeError\<close> is
  what the runtime raises when a property of \<open>undefined\<close> is read or a non-function
  is called; \<open>Thrown\<close> stands for any exception raised inside a collaborator
  (deserializers, \<open>JSON.parse\<close>, the key loader, the SSH library).
\<close>

datatype error =
    UnexpectedNetworkError
  | ComponentNotFound string
  | PermissionDenied
  | RemoteScopeNotFound
  | NetworkError string
  | TypeError
  | Thrown string

text \<open>
  The three arguments the SSH library hands to the callback of a command: the error
  object \<open>err\<close> (or \<open>null\<close>), the text \<open>res\<close> written by the command, and the
  completion record \<open>o\<close> (or \<open>undefined\<close>), called \<open>out\<close> below. Only the fields
  the module reads are kept.
\<close>

record ssh_err =
  err_code :: "int option"
  err_id :: "string option"

record ssh_out =
  o_code :: "int option"

type_synonym callback_args = "ssh_err option \<times> string \<times> ssh_out option"

text \<open>\<open>err.id || optionalId\<close>: an absent or empty id is falsy.\<close>

definition id_or :: "string option \<Rightarrow> string \<Rightarrow> string" where
  "id_or i optionalId = (case i of None \<Rightarrow> optionalId | Some s \<Rightarrow> if s = [] then optionalId else s)"

text \<open>\<open>o.code && o.code !== 0\<close> on a number or \<open>null\<close>.\<close>

definition nonzero :: "int option \<Rightarrow> bool" where
  "nonzero c = (case c of None \<Rightarrow> False | Some n \<Rightarrow> n \<noteq> 0)"

definition errorHandler :: "ssh_err \<Rightarrow> string \<Rightarrow> error" where
  "errorHandler err optionalId =
     (if err_code err = Some 127 then ComponentNotFound (id_or (err_id err) optionalId)
      else if err_code err = Some 128 then PermissionDenied
      else if err_code err = Some 129 then RemoteScopeNotFound
      else if err_code err = Some 130 then PermissionDenied
      else UnexpectedNetworkError)"

subsection \<open>Collaborators\<close>

text \<open>
  Everything the class calls but does not define is a field of the environment: the SSH
  library \<open>sequest\<close> (an external package: opening a channel, running one command on
  it, ending it), the key loader, and the repository's \<open>unpack\<close>, \<open>BitId\<close>,
  \<open>ConsumerComponent\<close> and \<open>ComponentObjects\<close>, whose sources are not available, as
  well as the platform's \<open>JSON.parse\<close>. A channel handle has type \<open>'h\<close>; ending it
  yields the handle in its new state. \<open>ConsumerComponent.fromString\<close> is called once
  with a string and once with an array, hence \<open>js_arg\<close>.
\<close>

datatype js_arg = Str string | Arr "string list"

record ('h, 'i, 'c, 'o, 'j) env =
  sequest_connect :: "string \<Rightarrow> string \<Rightarrow> error + 'h"
  sequest_call :: "'h \<Rightarrow> string \<Rightarrow> callback_args"
  sequest_end :: "'h \<Rightarrow> error + 'h"
  keyGetter :: "string option \<Rightarrow> error + string"
  unpack :: "string \<Rightarrow> string list"
  BitId_toString :: "'i \<Rightarrow> string"
  ConsumerComponent_fromString :: "js_arg \<Rightarrow> error + 'c option"
  ComponentObjects_fromString :: "string \<Rightarrow> error + 'o option"
  ComponentObjects_toString :: "'o \<Rightarrow> string"
  JSON_parse :: "string \<Rightarrow> error + 'j"

subsection \<open>Promises and arrays\<close>

definition promise_then :: "error + 'a \<Rightarrow> ('a \<Rightarrow> error + 'b) \<Rightarrow> error + 'b" where
  "promise_then p f = (case p of Inl e \<Rightarrow> Inl e | Inr v \<Rightarrow> f v)"

definition promise_catch :: "error + 'a \<Rightarrow> (error \<Rightarrow> error + 'a) \<Rightarrow> error + 'a" where
  "promise_catch p h = (case p of Inl e \<Rightarrow> h e | Inr v \<Rightarrow> Inr v)"

text \<open>\<open>Array.prototype.map\<close> with a callback that may throw: the first throw wins.\<close>

fun mapE :: "('a \<Rightarrow> error + 'b) \<Rightarrow> 'a list \<Rightarrow> error + 'b list" where
  "mapE f [] = Inr []"
| "mapE f (x # xs) =
     (case f x of
        Inl e \<Rightarrow> Inl e
      | Inr y \<Rightarrow> (case mapE f xs of Inl e \<Rightarrow> Inl e | Inr ys \<Rightarrow> Inr (y # ys)))"

definition rejectNils :: "'a option list \<Rightarrow> 'a option list" where
  "rejectNils xs = filter (\<lambda>x. x \<noteq> None) xs"

subsection \<open>The class SSH\<close>

record 'h SSH =
  path :: string
  username :: string
  port :: nat
  host :: string
  connection :: "'h option"

definition buildCmd :: "string \<Rightarrow> string list \<Rightarrow> string" where
  "buildCmd commandName args = ''bit '' @ commandName @ '' '' @ join '' '' (map toBase64 args)"

text \<open>The body of the callback that \<open>exec\<close> passes to the channel.\<close>

definition exec_callback :: "callback_args \<Rightarrow> error + string" where
  "exec_callback cb =
     (case cb of (err, res, out) \<Rightarrow>
        (case out of
           None \<Rightarrow> Inl UnexpectedNetworkError
         | Some oc \<Rightarrow>
             (case err of
                Some e \<Rightarrow> if nonzero (o_code oc) then Inl (errorHandler e res) else Inr (clean res)
              | None \<Rightarrow> Inr (clean res))))"

text \<open>
  \<open>this.path\<close> is a string, on which \<open>this.path || ''\<close> is the identity. Calling
  \<open>this.connection\<close> while it is \<open>undefined\<close> raises inside the promise executor,
  which rejects the promise.
\<close>

definition exec :: "('h, 'i, 'c, 'o, 'j) env \<Rightarrow> 'h SSH \<Rightarrow> string \<Rightarrow> string list \<Rightarrow> error + string" where
  "exec env this commandName args =
     (let cmd = buildCmd commandName (absolutePath (path this) # args) in
      case connection this of
        None \<Rightarrow> Inl TypeError
      | Some conn \<Rightarrow> exec_callback (sequest_call env conn cmd))"

definition push :: "('h, 'i, 'c, 'o, 'j) env \<Rightarrow> 'h SSH \<Rightarrow> 'o \<Rightarrow> error + 'o option" where
  "push env this componentObjects =
     promise_then (exec env this ''_put'' [ComponentObjects_toString env componentObjects])
       (\<lambda>str. case ComponentObjects_fromString env (fromBase64 str) of
                 Inl err \<Rightarrow> Inl (NetworkError str)
               | Inr v \<Rightarrow> Inr v)"

definition describeScope :: "('h, 'i, 'c, 'o, 'j) env \<Rightarrow> 'h SSH \<Rightarrow> error + 'j" where
  "describeScope env this =
     promise_catch
       (promise_then (exec env this ''_scope'' []) (\<lambda>data. JSON_parse env (fromBase64 data)))
       (\<lambda>_. Inl RemoteScopeNotFound)"

definition list_op :: "('h, 'i, 'c, 'o, 'j) env \<Rightarrow> 'h SSH \<Rightarrow> error + 'c option list" where
  "list_op env this =
     promise_then (exec env this ''_list'' [])
       (\<lambda>str. let components = unpack env str in
          case mapE (\<lambda>c. if c \<noteq> [] then ConsumerComponent_fromString env (Str c) else Inr None)
                 components of
            Inl e \<Rightarrow> Inl e
          | Inr cs \<Rightarrow> Inr (rejectNils cs))"

definition search :: "('h, 'i, 'c, 'o, 'j) env \<Rightarrow> 'h SSH \<Rightarrow> string \<Rightarrow> bool \<Rightarrow> error + 'j" where
  "search env this query reindex =
     promise_then (exec env this ''_search'' [query, if reindex then ''true'' else ''false''])
       (JSON_parse env)"

definition show_op :: "('h, 'i, 'c, 'o, 'j) env \<Rightarrow> 'h SSH \<Rightarrow> 'i \<Rightarrow> error + 'c option" where
  "show_op env this i =
     promise_then (exec env this ''_show'' [BitId_toString env i])
       (\<lambda>str. let component = unpack env str in
          if str \<noteq> [] then ConsumerComponent_fromString env (Arr component) else Inr None)"

definition fetch ::
  "('h, 'i, 'c, 'o, 'j) env \<Rightarrow> 'h SSH \<Rightarrow> 'i list \<Rightarrow> bool \<Rightarrow> error + 'o option list" where
  "fetch env this ids noDeps =
     (let options = (if noDeps then ''-n'' else []);
          ids' = map (BitId_toString env) ids in
      promise_then (exec env this (''_fetch '' @ options) ids')
        (\<lambda>str. let components = unpack env str in
           mapE (ComponentObjects_fromString env) components))"


fun digits :: "nat \<Rightarrow> string" where
  "digits n = (if n < 10 then [char_of (48 + n)] else digits (n div 10) @ [char_of (48 + n mod 10)])"

definition composeConnectionUrl :: "'h SSH \<Rightarrow> string" where
  "composeConnectionUrl this = username this @ ''@'' @ host this @ '':'' @ digits (port this)"

text \<open>
  \<open>connect\<close> ignores its \<open>sshUrl\<close> argument. The key is loaded first, then the channel
  is opened; either may throw, and the \<open>catch\<close> rejects with what was thrown.
\<close>

definition connect ::
  "('h, 'i, 'c, 'o, 'j) env \<Rightarrow> 'h SSH \<Rightarrow> 'u \<Rightarrow> string option \<Rightarrow> error + 'h SSH" where
  "connect env this sshUrl key =
     (case keyGetter env key of
        Inl e \<Rightarrow> Inl e
      | Inr privateKey \<Rightarrow>
          (case sequest_connect env (composeConnectionUrl this) privateKey of
             Inl e \<Rightarrow> Inl e
           | Inr conn \<Rightarrow> Inr (this\<lparr>connection := Some conn\<rparr>)))"

subsection \<open>A concrete remote for examples\<close>

text \<open>
  \<open>String.prototype.includes\<close>, used to inspect command lines in the examples.
\<close>

fun includes_str :: "string \<Rightarrow> string \<Rightarrow> bool" where
  "includes_str [] p = (p = [])"
| "includes_str (c # cs) p = (startsWith (c # cs) p \<or> includes_str cs p)"

text \<open>
  A loop-back remote: every command succeeds and its output is the command line it was
  given, so that the result of an operation shows what was sent. Handles are numbered by
  how often they were ended. Domain objects, ids and JSON values are plain strings; the
  bundle deserializer reads the text \<open>null\<close> as \<open>null\<close>, and the JSON parser rejects
  empty input.
\<close>

definition echo_env :: "(nat, string, string, string, string) env" where
  "echo_env =
     \<lparr> sequest_connect = (\<lambda>url privateKey. Inr 0),
       sequest_call = (\<lambda>h cmd. (None, cmd, Some \<lparr>o_code = Some 0\<rparr>)),
       sequest_end = (\<lambda>h. Inr (Suc h)),
       keyGetter = (\<lambda>key. case key of None \<Rightarrow> Inl (Thrown ''no key'') | Some k \<Rightarrow> Inr k),
       unpack = (\<lambda>str. [str]),
       BitId_toString = (\<lambda>i. i),
       ConsumerComponent_fromString =
         (\<lambda>a. case a of Str s \<Rightarrow> Inr (Some s) | Arr xs \<Rightarrow> Inr (Some (join '','' xs))),
       ComponentObjects_fromString = (\<lambda>s. if s = ''null'' then Inr None else Inr (Some s)),
       ComponentObjects_toString = (\<lambda>obj. obj),
       JSON_parse = (\<lambda>s. if s = [] then Inl (Thrown ''Unexpected end of JSON input'') else Inr s) \<rparr>"

definition client :: "nat option \<Rightarrow> nat SSH" where
  "client c = \<lparr> path = ''/tmp/scope'', username = ''git'', port = 22, host = ''example.org'',
                connection = c \<rparr>"

section \<open>Properties\<close>

subsection \<open>Base64 is reversible and stays inside its alphabet\<close>

lemma b64val_b64char: "n < 64 \<Longrightarrow> b64val (b64char n) = Some n"
  by (auto simp: b64val_def b64char_def Let_def)

lemma of_char_b64char:
  "(of_char (b64char n) :: nat) =
     (if n < 26 then 65 + n else if n < 52 then 71 + n else if n < 62 then n - 4
      else if n = 62 then 43 else 47)"
  by (simp add: b64char_def)

lemma b64char_alphabet:
  "b64char n \<noteq> CHR ''=''" "b64char n \<noteq> CHR 0x0A" "b64char n \<noteq> CHR '' ''"
  "b64char n \<noteq> CHR ''-''"
proof -
  have "(of_char (b64char n) :: nat) \<notin> {61, 10, 32, 45}"
    unfolding of_char_b64char by auto
  then show "b64char n \<noteq> CHR ''=''" "b64char n \<noteq> CHR 0x0A" "b64char n \<noteq> CHR '' ''"
    "b64char n \<noteq> CHR ''-''"
    by auto
qed

lemma sextets_Nil: "sextets [] = []"
  by (simp add: sextets_def)

lemma sextets_pad: "sextets (CHR ''='' # cs) = []"
  by (simp add: sextets_def)

lemma sextets_b64char: "n < 64 \<Longrightarrow> sextets (b64char n # cs) = n # sextets cs"
  by (simp add: sextets_def b64char_alphabet b64val_b64char)

lemma decode_encode3:
  "\<forall>x\<in>set bs. x < 256 \<Longrightarrow> decode4 (sextets (encode3 bs)) = map char_of bs"
proof (induction bs rule: encode3.induct)
  case (1 a b c rest)
  then have lt: "a < 256" "b < 256" "c < 256" and rest: "\<forall>x\<in>set rest. x < 256"
    by auto
  have s: "a div 4 < 64" "(a mod 4) * 16 + b div 16 < 64"
    "(b mod 16) * 4 + c div 64 < 64" "c mod 64 < 64"
    using lt by simp_all
  have e1: "a div 4 * 4 + (a mod 4 * 16 + b div 16) div 16 = a"
    using lt by simp
  have e2: "(a mod 4 * 16 + b div 16) mod 16 * 16 + (b mod 16 * 4 + c div 64) div 4 = b"
    using lt by simp
  have e3: "(b mod 16 * 4 + c div 64) mod 4 * 64 + c mod 64 = c"
    using lt by simp
  show ?case
    using 1(1)[OF rest]
    by (simp only: encode3.simps sextets_b64char[OF s(1)] sextets_b64char[OF s(2)]
        sextets_b64char[OF s(3)] sextets_b64char[OF s(4)] decode4.simps e1 e2 e3 list.map)
next
  case (2 a b)
  then have lt: "a < 256" "b < 256"
    by auto
  have s: "a div 4 < 64" "(a mod 4) * 16 + b div 16 < 64" "(b mod 16) * 4 < 64"
    using lt by simp_all
  have e1: "a div 4 * 4 + (a mod 4 * 16 + b div 16) div 16 = a"
    using lt by simp
  have e2: "(a mod 4 * 16 + b div 16) mod 16 * 16 + (b mod 16 * 4) div 4 = b"
    using lt by simp
  show ?case
    by (simp only: encode3.simps sextets_b64char[OF s(1)] sextets_b64char[OF s(2)]
        sextets_b64char[OF s(3)] sextets_pad decode4.simps e1 e2 list.map)
next
  case (3 a)
  then have lt: "a < 256"
    by auto
  have s: "a div 4 < 64" "(a mod 4) * 16 < 64"
    using lt by simp_all
  have e1: "a div 4 * 4 + (a mod 4 * 16) div 16 = a"
    using lt by simp
  show ?case
    by (simp only: encode3.simps sextets_b64char[OF s(1)] sextets_b64char[OF s(2)]
        sextets_pad decode4.simps e1 list.map)
next
  case 4
  then show ?case
    by (simp add: sextets_Nil)
qed

lemma fromBase64_toBase64: "fromBase64 (toBase64 s) = s"
proof -
  have "decode4 (sextets (encode3 (map of_char s))) = map char_of (map of_char s :: nat list)"
    by (rule decode_encode3) simp
  then show ?thesis
    by (simp add: fromBase64_def toBase64_def comp_def)
qed

lemma encode3_alphabet:
  "c \<in> set (encode3 bs) \<Longrightarrow> c \<noteq> CHR 0x0A \<and> c \<noteq> CHR '' '' \<and> c \<noteq> CHR ''-''"
  by (induction bs rule: encode3.induct) (auto simp: b64char_alphabet)

subsection \<open>Helpers about \<open>clean\<close>, \<open>join\<close> and \<open>exec\<close>\<close>

lemma clean_first: "CHR 0x0A \<notin> set a \<Longrightarrow> clean (a @ CHR 0x0A # b) = a @ b"
  by (induction a) auto

lemma clean_id: "CHR 0x0A \<notin> set s \<Longrightarrow> clean s = s"
  by (induction s) auto

lemma clean_toBase64: "clean (toBase64 s) = toBase64 s"
  by (rule clean_id) (auto simp: toBase64_def dest: encode3_alphabet)

lemma exec_callback_Inr: "exec_callback (err, res, out) = Inr v \<Longrightarrow> v = clean res"
  by (auto simp: exec_callback_def split: option.splits if_splits)

lemma exec_Some:
  "connection this = Some h \<Longrightarrow>
   exec env this commandName args =
     exec_callback (sequest_call env h (buildCmd commandName (absolutePath (path this) # args)))"
  by (simp add: exec_def)

lemma exec_callback_success:
  "err = None \<or> \<not> nonzero (o_code oc) \<Longrightarrow> exec_callback (err, res, Some oc) = Inr (clean res)"
  by (auto simp: exec_callback_def split: option.splits)

lemma errorHandler_range:
  "errorHandler e oid \<in> {UnexpectedNetworkError, PermissionDenied, RemoteScopeNotFound}
   \<or> (\<exists>i. errorHandler e oid = ComponentNotFound i)"
  by (simp add: errorHandler_def)

lemma promise_then_Inl: "promise_then (Inl e) f = Inl e"
  by (simp add: promise_then_def)

lemma promise_then_Inr: "promise_then (Inr v) f = f v"
  by (simp add: promise_then_def)

lemma join_space: "join '' '' (x # xs) = x @ concat (map (\<lambda>a. '' '' @ a) xs)"
  by (induction xs arbitrary: x) auto

lemma buildCmd_concat:
  "buildCmd commandName (p # args) =
     ''bit '' @ commandName @ '' '' @ toBase64 p @ concat (map (\<lambda>a. '' '' @ toBase64 a) args)"
  by (simp add: buildCmd_def join_space comp_def)

lemma absolutePath_cases:
  "absolutePath [] = ''~/''"
  "absolutePath (CHR ''/'' # r) = CHR ''/'' # r"
  "c \<noteq> CHR ''/'' \<Longrightarrow> absolutePath (c # r) = ''~/'' @ c # r"
  by (simp_all add: absolutePath_def startsWith_def)

lemma mapE_Inr_iff: "mapE f xs = Inr ys \<longleftrightarrow> map f xs = map Inr ys"
proof (induction xs arbitrary: ys)
  case Nil
  then show ?case by auto
next
  case (Cons x xs)
  show ?case
  proof (cases ys)
    case Nil
    then show ?thesis by (simp split: sum.splits)
  next
    case (Cons y ys')
    then show ?thesis
      using Cons.IH [of ys'] by (auto split: sum.splits)
  qed
qed

lemma connect_Inr_iff:
  "connect env this sshUrl key = Inr this' \<longleftrightarrow>
     (\<exists>k conn. keyGetter env key = Inr k \<and>
        sequest_connect env (composeConnectionUrl this) k = Inr conn \<and>
        this' = this\<lparr>connection := Some conn\<rparr>)"
  by (cases "keyGetter env key"; cases "sequest_connect env (composeConnectionUrl this) (projr (keyGetter env key))")
     (auto simp: connect_def)

subsection \<open>Encodings of the strings used in the examples\<close>

lemma b64_examples:
  "toBase64 ''-n'' = ''LW4=''"
  "toBase64 ''a/b@1.0.0'' = ''YS9iQDEuMC4w''"
  "toBase64 ''/tmp/scope'' = ''L3RtcC9zY29wZQ==''"
  "toBase64 ''~/scope'' = ''fi9zY29wZQ==''"
  "toBase64 ''{}'' = ''e30=''"
  "toBase64 ''c/d'' = ''Yy9k''"
  "toBase64 ''true'' = ''dHJ1ZQ==''"
  "toBase64 ''button'' = ''YnV0dG9u''"
  by code_simp+



section \<open>The claims\<close>

text \<open>
  C1, as the spec states it, fails. \<open>show\<close> is called for the id \<open>a/b@1.0.0\<close>; the
  remote fails with status 127 and reports no id. The failure does not carry the id that
  the caller supplied but the text that the remote wrote: \<open>exec\<close>, the only caller of
  \<open>errorHandler\<close>, passes the output \<open>res\<close> as the fallback.
\<close>

theorem show_not_found_id_counterexample:
  "show_op (echo_env\<lparr>sequest_call := \<lambda>h cmd.
       (Some \<lparr>err_code = Some 127, err_id = None\<rparr>, ''no such component'',
        Some \<lparr>o_code = Some 127\<rparr>)\<rparr>)
     (client (Some 0)) ''a/b@1.0.0'' = Inl (ComponentNotFound ''no such component'')"
  by (simp add: show_op_def exec_def exec_callback_def promise_then_def echo_env_def client_def
      nonzero_def errorHandler_def id_or_def)

text \<open>
  C1, amended. Every completion outcome gets exactly one result. Without a completion
  record (no output at all) the call is rejected with \<open>UnexpectedNetworkError\<close>. With a
  completion record the call fails only when there is an error object and the record's
  status is non-zero; otherwise it resolves with the cleaned output. A failure is
  classified by the status of the error object: 127 gives \<open>ComponentNotFound\<close>, whose id
  is the id reported by the remote when that is present and not empty, and otherwise the
  remote's raw output; 128 and 130 give \<open>PermissionDenied\<close>; 129 gives
  \<open>RemoteScopeNotFound\<close>; every other status gives \<open>UnexpectedNetworkError\<close>. The
  classifier itself is the same table over its two arguments.
\<close>

theorem exec_callback_table:
  "exec_callback (err, res, None) = Inl UnexpectedNetworkError \<and>
   (err = None \<or> \<not> nonzero (o_code oc) \<longrightarrow> exec_callback (err, res, Some oc) = Inr (clean res)) \<and>
   (nonzero (o_code oc) \<longrightarrow> exec_callback (Some e, res, Some oc) = Inl (errorHandler e res)) \<and>
   (nonzero (o_code oc) \<and> err_code e = Some 127 \<longrightarrow>
      exec_callback (Some e, res, Some oc) =
        Inl (ComponentNotFound (case err_id e of None \<Rightarrow> res
                                | Some i \<Rightarrow> if i = [] then res else i))) \<and>
   (err_code e = Some 127 \<longrightarrow>
      errorHandler e optionalId =
        ComponentNotFound (case err_id e of None \<Rightarrow> optionalId
                           | Some i \<Rightarrow> if i = [] then optionalId else i)) \<and>
   (err_code e = Some 128 \<longrightarrow> errorHandler e optionalId = PermissionDenied) \<and>
   (err_code e = Some 129 \<longrightarrow> errorHandler e optionalId = RemoteScopeNotFound) \<and>
   (err_code e = Some 130 \<longrightarrow> errorHandler e optionalId = PermissionDenied) \<and>
   (err_code e \<notin> {Some 127, Some 128, Some 129, Some 130} \<longrightarrow>
      errorHandler e optionalId = UnexpectedNetworkError)"
proof -
  have none: "exec_callback (err, res, None) = Inl UnexpectedNetworkError"
    by (simp add: exec_callback_def)
  have ok: "err = None \<or> \<not> nonzero (o_code oc) \<longrightarrow>
      exec_callback (err, res, Some oc) = Inr (clean res)"
    by (simp add: exec_callback_success)
  have fail: "nonzero (o_code oc) \<longrightarrow>
      exec_callback (Some e, res, Some oc) = Inl (errorHandler e res)"
    by (simp add: exec_callback_def)
  have rows: "(err_code e = Some 127 \<longrightarrow>
      errorHandler e x =
        ComponentNotFound (case err_id e of None \<Rightarrow> x | Some i \<Rightarrow> if i = [] then x else i)) \<and>
   (err_code e = Some 128 \<longrightarrow> errorHandler e x = PermissionDenied) \<and>
   (err_code e = Some 129 \<longrightarrow> errorHandler e x = RemoteScopeNotFound) \<and>
   (err_code e = Some 130 \<longrightarrow> errorHandler e x = PermissionDenied) \<and>
   (err_code e \<notin> {Some 127, Some 128, Some 129, Some 130} \<longrightarrow>
      errorHandler e x = UnexpectedNetworkError)" for x
    by (simp add: errorHandler_def id_or_def)
  have nf: "nonzero (o_code oc) \<and> err_code e = Some 127 \<longrightarrow>
      exec_callback (Some e, res, Some oc) =
        Inl (ComponentNotFound (case err_id e of None \<Rightarrow> res
                                | Some i \<Rightarrow> if i = [] then res else i))"
    using fail rows [of res] by simp
  from none ok fail nf rows [of optionalId] show ?thesis
    by blast
qed

theorem exec_callback_table_witness:
  "exec_callback (Some \<lparr>err_code = Some 127, err_id = Some ''a/b''\<rparr>, ''out'',
       Some \<lparr>o_code = Some 127\<rparr>) = Inl (ComponentNotFound ''a/b'') \<and>
   exec_callback (Some \<lparr>err_code = Some 127, err_id = None\<rparr>, ''out'',
       Some \<lparr>o_code = Some 127\<rparr>) = Inl (ComponentNotFound ''out'') \<and>
   exec_callback (Some \<lparr>err_code = Some 127, err_id = None\<rparr>, ''out'',
       Some \<lparr>o_code = Some 0\<rparr>) = Inr ''out'' \<and>
   errorHandler \<lparr>err_code = Some 128, err_id = None\<rparr> ''out'' = PermissionDenied \<and>
   errorHandler \<lparr>err_code = Some 129, err_id = None\<rparr> ''out'' = RemoteScopeNotFound \<and>
   errorHandler \<lparr>err_code = Some 130, err_id = None\<rparr> ''out'' = PermissionDenied \<and>
   errorHandler \<lparr>err_code = Some 1, err_id = None\<rparr> ''out'' = UnexpectedNetworkError"
  using exec_callback_table [where err = None and res = "''out''"
      and oc = "\<lparr>o_code = Some 127\<rparr>"
      and e = "\<lparr>err_code = Some 127, err_id = Some ''a/b''\<rparr>" and optionalId = "''out''"]
    exec_callback_table [where err = None and res = "''out''"
      and oc = "\<lparr>o_code = Some 127\<rparr>"
      and e = "\<lparr>err_code = Some 127, err_id = None\<rparr>" and optionalId = "''out''"]
    exec_callback_table [where err = "Some \<lparr>err_code = Some 127, err_id = None\<rparr>"
      and res = "''out''" and oc = "\<lparr>o_code = Some 0\<rparr>"
      and e = "\<lparr>err_code = Some 128, err_id = None\<rparr>" and optionalId = "''out''"]
    exec_callback_table [where err = None and res = "''out''"
      and oc = "\<lparr>o_code = Some 127\<rparr>"
      and e = "\<lparr>err_code = Some 129, err_id = None\<rparr>" and optionalId = "''out''"]
    exec_callback_table [where err = None and res = "''out''"
      and oc = "\<lparr>o_code = Some 127\<rparr>"
      and e = "\<lparr>err_code = Some 130, err_id = None\<rparr>" and optionalId = "''out''"]
    exec_callback_table [where err = None and res = "''out''"
      and oc = "\<lparr>o_code = Some 127\<rparr>"
      and e = "\<lparr>err_code = Some 1, err_id = None\<rparr>" and optionalId = "''out''"]
  by (simp add: nonzero_def)

text \<open>
  C10. \<open>exec\<close> resolves with the remote's output after deleting its first newline and
  nothing else: the text before the first newline and the text after it are kept as they
  are, later newlines included, and an output that contains a newline is never resolved
  unchanged (it is exactly one character shorter).
\<close>

theorem exec_removes_first_newline:
  "(CHR 0x0A \<notin> set a \<longrightarrow>
      clean (a @ CHR 0x0A # b) = a @ b \<and> clean (a @ CHR 0x0A # b) \<noteq> a @ CHR 0x0A # b \<and>
      count_list (clean (a @ CHR 0x0A # b)) (CHR 0x0A) = count_list b (CHR 0x0A)) \<and>
   (CHR 0x0A \<in> set res \<longrightarrow> clean res \<noteq> res \<and> Suc (length (clean res)) = length res) \<and>
   (connection this = Some h \<and>
    sequest_call env h (buildCmd commandName (absolutePath (path this) # args)) = (err, res, out) \<and>
    exec env this commandName args = Inr v \<longrightarrow> v = clean res)"
proof (intro conjI impI)
  assume a: "CHR 0x0A \<notin> set a"
  show "clean (a @ CHR 0x0A # b) = a @ b" using a by (rule clean_first)
  then show "clean (a @ CHR 0x0A # b) \<noteq> a @ CHR 0x0A # b" by simp
  show "count_list (clean (a @ CHR 0x0A # b)) (CHR 0x0A) = count_list b (CHR 0x0A)"
    using a by (simp add: clean_first)
next
  assume "CHR 0x0A \<in> set res"
  then obtain a b where res: "res = a @ CHR 0x0A # b" and a: "CHR 0x0A \<notin> set a"
    by (auto dest: split_list_first)
  show "clean res \<noteq> res" using a by (simp add: res clean_first)
  show "Suc (length (clean res)) = length res" using a by (simp add: res clean_first)
next
  assume "connection this = Some h \<and>
    sequest_call env h (buildCmd commandName (absolutePath (path this) # args)) = (err, res, out) \<and>
    exec env this commandName args = Inr v"
  then show "v = clean res"
    by (auto simp: exec_Some dest: exec_callback_Inr)
qed

theorem exec_removes_first_newline_witness:
  "CHR 0x0A \<notin> set ''ab'' \<and> CHR 0x0A \<in> set (''ab'' @ CHR 0x0A # ''cd'' @ CHR 0x0A # ''ef'') \<and>
   exec (echo_env\<lparr>sequest_call := \<lambda>h cmd. (None, ''ab'' @ CHR 0x0A # ''cd'' @ CHR 0x0A # ''ef'', Some \<lparr>o_code = Some 0\<rparr>)\<rparr>)
     (client (Some 0)) ''_list'' [] = Inr (''abcd'' @ CHR 0x0A # ''ef'') \<and>
   clean (''ab'' @ CHR 0x0A # ''cd'' @ CHR 0x0A # ''ef'') = ''abcd'' @ CHR 0x0A # ''ef'' \<and>
   clean (''ab'' @ CHR 0x0A # ''cd'' @ CHR 0x0A # ''ef'') \<noteq> ''ab'' @ CHR 0x0A # ''cd'' @ CHR 0x0A # ''ef'' \<and>
   count_list (clean (''ab'' @ CHR 0x0A # ''cd'' @ CHR 0x0A # ''ef'')) (CHR 0x0A) = 1"
  using exec_removes_first_newline [of "''ab''" "''cd'' @ CHR 0x0A # ''ef''"
      "''ab'' @ CHR 0x0A # ''cd'' @ CHR 0x0A # ''ef''" "client (Some 0)" 0 
      "echo_env\<lparr>sequest_call := \<lambda>h cmd. (None, ''ab'' @ CHR 0x0A # ''cd'' @ CHR 0x0A # ''ef'', Some \<lparr>o_code = Some 0\<rparr>)\<rparr>"
      "''_list''" "[]" None "Some \<lparr>o_code = Some 0\<rparr>" "''abcd'' @ CHR 0x0A # ''ef''"]
  by (simp add: client_def echo_env_def exec_def exec_callback_def)

text \<open>
  C3, as the spec states it, fails for \<open>fetch\<close>. The loop-back remote shows the command
  lines: with the no-dependencies flag set, the flag is on the line as the plain token
  \<open>-n\<close> and its base64 encoding occurs nowhere; without the flag, two spaces separate
  the operation name from the encoded working path.
\<close>

theorem fetch_command_line_counterexample:
  "fetch echo_env (client (Some 0)\<lparr>path := ''scope''\<rparr>) [''a/b@1.0.0'', ''c/d''] True
     = Inr [Some ''bit _fetch -n fi9zY29wZQ== YS9iQDEuMC4w Yy9k''] \<and>
   \<not> includes_str ''bit _fetch -n fi9zY29wZQ== YS9iQDEuMC4w Yy9k'' (toBase64 ''-n'') \<and>
   fetch echo_env (client (Some 0)) [''c/d''] False
     = Inr [Some ''bit _fetch  L3RtcC9zY29wZQ== Yy9k'']"
  by (simp add: fetch_def exec_def promise_then_Inr exec_callback_def echo_env_def client_def
      buildCmd_concat absolutePath_cases b64_examples startsWith_def)

text \<open>
  C3, amended. \<open>exec\<close> hands to the channel the tool name \<open>bit\<close>, the command name it
  was given, copied as it is, the base64 encoding of the normalized working path and
  then the base64 encoding of each of its arguments, every item separated from the next
  by one space. Each argument is encoded on its own, so decoding the encoded items one by
  one gives back the normalized path and the arguments. Normalization leaves a path that
  starts with \<open>/\<close> as it is and puts \<open>~/\<close> (the remote user's home directory) in front
  of any other path, the empty one included. \<open>push\<close>, \<open>describeScope\<close>, \<open>list\<close>,
  \<open>search\<close> and \<open>show\<close> give \<open>exec\<close> a fixed operation name and pass everything else
  as arguments, so everything they put on the line after the operation name is encoded.
  \<open>fetch\<close> gives \<open>exec\<close> the command name \<open>_fetch\<close>, a space and its flag token
  (\<open>-n\<close> or nothing): the flag is on the line unencoded and only the ids are encoded.
\<close>

theorem operations_command_lines:
  "(connection this = Some h \<longrightarrow>
      exec env this commandName args =
        exec_callback (sequest_call env h
          (''bit '' @ commandName @ '' '' @ toBase64 (absolutePath (path this)) @
           concat (map (\<lambda>a. '' '' @ toBase64 a) args))) \<and>
      push env this objs =
        promise_then
          (exec_callback (sequest_call env h
             (''bit _put '' @ toBase64 (absolutePath (path this)) @ '' '' @
              toBase64 (ComponentObjects_toString env objs))))
          (\<lambda>str. case ComponentObjects_fromString env (fromBase64 str) of
                    Inl err \<Rightarrow> Inl (NetworkError str)
                  | Inr v \<Rightarrow> Inr v) \<and>
      describeScope env this =
        promise_catch
          (promise_then
             (exec_callback (sequest_call env h
                (''bit _scope '' @ toBase64 (absolutePath (path this)))))
             (\<lambda>d. JSON_parse env (fromBase64 d)))
          (\<lambda>_. Inl RemoteScopeNotFound) \<and>
      list_op env this =
        promise_then
          (exec_callback (sequest_call env h
             (''bit _list '' @ toBase64 (absolutePath (path this)))))
          (\<lambda>str. case mapE (\<lambda>c. if c \<noteq> [] then ConsumerComponent_fromString env (Str c)
                                 else Inr None) (unpack env str) of
                    Inl e \<Rightarrow> Inl e
                  | Inr cs \<Rightarrow> Inr (rejectNils cs)) \<and>
      search env this query reindex =
        promise_then
          (exec_callback (sequest_call env h
             (''bit _search '' @ toBase64 (absolutePath (path this)) @ '' '' @
              toBase64 query @ '' '' @ toBase64 (if reindex then ''true'' else ''false''))))
          (JSON_parse env) \<and>
      show_op env this i =
        promise_then
          (exec_callback (sequest_call env h
             (''bit _show '' @ toBase64 (absolutePath (path this)) @ '' '' @
              toBase64 (BitId_toString env i))))
          (\<lambda>str. if str \<noteq> [] then ConsumerComponent_fromString env (Arr (unpack env str))
                  else Inr None) \<and>
      fetch env this ids noDeps =
        promise_then
          (exec_callback (sequest_call env h
             (''bit _fetch '' @ (if noDeps then ''-n'' else []) @ '' '' @
              toBase64 (absolutePath (path this)) @
              concat (map (\<lambda>i. '' '' @ toBase64 (BitId_toString env i)) ids))))
          (\<lambda>str. mapE (ComponentObjects_fromString env) (unpack env str))) \<and>
   map fromBase64 (map toBase64 (absolutePath (path this) # args)) = absolutePath (path this) # args \<and>
   absolutePath (CHR ''/'' # r) = CHR ''/'' # r \<and>
   absolutePath [] = ''~/'' \<and>
   (c \<noteq> CHR ''/'' \<longrightarrow> absolutePath (c # r) = ''~/'' @ c # r)"
proof (intro conjI impI)
  assume h: "connection this = Some h"
  have line: "exec env this commandName args =
        exec_callback (sequest_call env h
          (''bit '' @ commandName @ '' '' @ toBase64 (absolutePath (path this)) @
           concat (map (\<lambda>a. '' '' @ toBase64 a) args)))" for commandName args
    using h by (simp only: exec_Some buildCmd_concat)
  show "exec env this commandName args =
        exec_callback (sequest_call env h
          (''bit '' @ commandName @ '' '' @ toBase64 (absolutePath (path this)) @
           concat (map (\<lambda>a. '' '' @ toBase64 a) args)))"
    by (rule line)
  show "push env this objs =
        promise_then
          (exec_callback (sequest_call env h
             (''bit _put '' @ toBase64 (absolutePath (path this)) @ '' '' @
              toBase64 (ComponentObjects_toString env objs))))
          (\<lambda>str. case ComponentObjects_fromString env (fromBase64 str) of
                    Inl err \<Rightarrow> Inl (NetworkError str)
                  | Inr v \<Rightarrow> Inr v)"
    unfolding push_def line by simp
  show "describeScope env this =
        promise_catch
          (promise_then
             (exec_callback (sequest_call env h
                (''bit _scope '' @ toBase64 (absolutePath (path this)))))
             (\<lambda>d. JSON_parse env (fromBase64 d)))
          (\<lambda>_. Inl RemoteScopeNotFound)"
    unfolding describeScope_def line by simp
  show "list_op env this =
        promise_then
          (exec_callback (sequest_call env h
             (''bit _list '' @ toBase64 (absolutePath (path this)))))
          (\<lambda>str. case mapE (\<lambda>c. if c \<noteq> [] then ConsumerComponent_fromString env (Str c)
                                 else Inr None) (unpack env str) of
                    Inl e \<Rightarrow> Inl e
                  | Inr cs \<Rightarrow> Inr (rejectNils cs))"
    unfolding list_op_def line Let_def by simp
  show "search env this query reindex =
        promise_then
          (exec_callback (sequest_call env h
             (''bit _search '' @ toBase64 (absolutePath (path this)) @ '' '' @
              toBase64 query @ '' '' @ toBase64 (if reindex then ''true'' else ''false''))))
          (JSON_parse env)"
    unfolding search_def line by simp
  show "show_op env this i =
        promise_then
          (exec_callback (sequest_call env h
             (''bit _show '' @ toBase64 (absolutePath (path this)) @ '' '' @
              toBase64 (BitId_toString env i))))
          (\<lambda>str. if str \<noteq> [] then ConsumerComponent_fromString env (Arr (unpack env str))
                  else Inr None)"
    unfolding show_op_def line Let_def by simp
  show "fetch env this ids noDeps =
        promise_then
          (exec_callback (sequest_call env h
             (''bit _fetch '' @ (if noDeps then ''-n'' else []) @ '' '' @
              toBase64 (absolutePath (path this)) @
              concat (map (\<lambda>i. '' '' @ toBase64 (BitId_toString env i)) ids))))
          (\<lambda>str. mapE (ComponentObjects_fromString env) (unpack env str))"
    unfolding fetch_def line Let_def by (simp add: comp_def)
next
  show "map fromBase64 (map toBase64 (absolutePath (path this) # args)) = absolutePath (path this) # args"
    by (simp add: fromBase64_toBase64 comp_def)
next
  assume "c \<noteq> CHR ''/''"
  then show "absolutePath (c # r) = ''~/'' @ c # r"
    by (simp add: absolutePath_cases)
qed (simp_all add: absolutePath_cases)

theorem operations_command_lines_witness:
  "exec echo_env (client (Some 0)\<lparr>path := ''scope''\<rparr>) ''_show'' [''a/b@1.0.0'']
     = Inr ''bit _show fi9zY29wZQ== YS9iQDEuMC4w'' \<and>
   search echo_env (client (Some 0)\<lparr>path := ''scope''\<rparr>) ''button'' True
     = Inr ''bit _search fi9zY29wZQ== YnV0dG9u dHJ1ZQ=='' \<and>
   fetch echo_env (client (Some 0)\<lparr>path := ''scope''\<rparr>) [''a/b@1.0.0'', ''c/d''] False
     = Inr [Some ''bit _fetch  fi9zY29wZQ== YS9iQDEuMC4w Yy9k''] \<and>
   absolutePath ''scope'' = ''~/scope''"
  using operations_command_lines [where this = "client (Some 0)\<lparr>path := ''scope''\<rparr>" and h = 0
      and env = echo_env and commandName = "''_show''" and args = "[''a/b@1.0.0'']"
      and objs = "''{}''" and query = "''button''" and reindex = True and i = "''a/b@1.0.0''"
      and ids = "[''a/b@1.0.0'', ''c/d'']" and noDeps = False
      and c = "CHR ''s''" and r = "''cope''"]
  by (simp add: client_def echo_env_def exec_callback_def promise_then_Inr absolutePath_cases
      b64_examples)

text \<open>
  C2, as the spec states it, fails. With the loop-back remote the result of \<open>fetch\<close>
  shows the command line that was sent for the id \<open>a/b@1.0.0\<close> with the no-dependencies
  flag set: the flag travels as the plain token \<open>-n\<close> inside the operation name, and the
  base64 encoding of the flag token does not occur in the command line at all.
\<close>

theorem fetch_flag_counterexample:
  "fetch echo_env (client (Some 0)) [''a/b@1.0.0''] True
     = Inr [Some ''bit _fetch -n L3RtcC9zY29wZQ== YS9iQDEuMC4w''] \<and>
   \<not> includes_str ''bit _fetch -n L3RtcC9zY29wZQ== YS9iQDEuMC4w'' (toBase64 ''-n'')"
  by (simp add: fetch_def exec_def promise_then_Inr exec_callback_def echo_env_def client_def
      buildCmd_concat absolutePath_cases b64_examples startsWith_def)

text \<open>
  C2, amended. For \<open>fetch\<close> with the single id \<open>a/b@1.0.0\<close> and the no-dependencies
  flag set, the command line sent is \<open>bit _fetch -n\<close>, then the base64 encoding of the
  normalized working path, then the base64 encoding of \<open>a/b@1.0.0\<close>: the flag token is
  not encoded. When the remote answers that command line successfully with a payload that
  unpacks to a single item, and the item deserializes, \<open>fetch\<close> resolves with exactly
  that one bundle.
\<close>

theorem fetch_noDeps_single:
  assumes "connection this = Some h"
    and "BitId_toString env i = ''a/b@1.0.0''"
    and "sequest_call env h
           (''bit _fetch -n '' @ toBase64 (absolutePath (path this)) @ '' '' @
            toBase64 ''a/b@1.0.0'')
         = (err, res, Some oc)"
    and "err = None \<or> \<not> nonzero (o_code oc)"
    and "unpack env (clean res) = [raw]"
    and "ComponentObjects_fromString env raw = Inr b"
  shows "fetch env this [i] True = Inr [b]"
proof -
  have "exec env this ''_fetch -n'' [''a/b@1.0.0''] = Inr (clean res)"
    using assms(1,3,4)
    by (auto simp: exec_Some buildCmd_concat b64_examples exec_callback_def split: option.splits)
  then show ?thesis
    using assms(2,5,6) by (simp add: fetch_def promise_then_Inr)
qed

theorem fetch_noDeps_single_witness:
  "fetch echo_env (client (Some 0)) [''a/b@1.0.0''] True
     = Inr [Some ''bit _fetch -n L3RtcC9zY29wZQ== YS9iQDEuMC4w'']"
  using fetch_noDeps_single [where env = echo_env and this = "client (Some 0)" and h = 0
      and i = "''a/b@1.0.0''" and err = "None"
      and res = "''bit _fetch -n L3RtcC9zY29wZQ== YS9iQDEuMC4w''" and oc = "\<lparr>o_code = Some 0\<rparr>"
      and raw = "''bit _fetch -n L3RtcC9zY29wZQ== YS9iQDEuMC4w''"
      and b = "Some ''bit _fetch -n L3RtcC9zY29wZQ== YS9iQDEuMC4w''"]
  by (simp add: echo_env_def client_def absolutePath_cases b64_examples)

text \<open>
  C4. When the remote answers the \<open>_put\<close> command successfully by echoing the base64
  encoding of the serialized objects, and the deserializer inverts the serializer on
  them, \<open>push\<close> resolves with the objects. When \<open>exec\<close> succeeds but deserializing the
  decoded answer throws, \<open>push\<close> rejects with \<open>NetworkError\<close> carrying the answer; this
  failure is never produced by the error classifier and is not \<open>UnexpectedNetworkError\<close>.
\<close>

theorem push_echo_or_decode_error:
  "(connection this = Some h \<and>
    sequest_call env h
      (buildCmd ''_put'' [absolutePath (path this), ComponentObjects_toString env objs])
      = (err, toBase64 (ComponentObjects_toString env objs), Some oc) \<and>
    (err = None \<or> \<not> nonzero (o_code oc)) \<and>
    ComponentObjects_fromString env (ComponentObjects_toString env objs) = Inr (Some objs)
    \<longrightarrow> push env this objs = Inr (Some objs)) \<and>
   (exec env this ''_put'' [ComponentObjects_toString env objs] = Inr str \<and>
    ComponentObjects_fromString env (fromBase64 str) = Inl e
    \<longrightarrow> push env this objs = Inl (NetworkError str) \<and>
        NetworkError str \<noteq> errorHandler er oid \<and>
        NetworkError str \<noteq> UnexpectedNetworkError)"
proof (intro conjI impI)
  assume a: "connection this = Some h \<and>
    sequest_call env h
      (buildCmd ''_put'' [absolutePath (path this), ComponentObjects_toString env objs])
      = (err, toBase64 (ComponentObjects_toString env objs), Some oc) \<and>
    (err = None \<or> \<not> nonzero (o_code oc)) \<and>
    ComponentObjects_fromString env (ComponentObjects_toString env objs) = Inr (Some objs)"
  then have "exec env this ''_put'' [ComponentObjects_toString env objs]
      = Inr (toBase64 (ComponentObjects_toString env objs))"
    by (simp add: exec_Some exec_callback_success clean_toBase64)
  then show "push env this objs = Inr (Some objs)"
    using a by (simp add: push_def promise_then_Inr fromBase64_toBase64)
next
  assume a: "exec env this ''_put'' [ComponentObjects_toString env objs] = Inr str \<and>
    ComponentObjects_fromString env (fromBase64 str) = Inl e"
  then show "push env this objs = Inl (NetworkError str)"
    by (simp add: push_def promise_then_Inr)
  show "NetworkError str \<noteq> errorHandler er oid"
    using errorHandler_range [of er oid] by auto
  show "NetworkError str \<noteq> UnexpectedNetworkError"
    by simp
qed

theorem push_echo_or_decode_error_witness:
  "push (echo_env\<lparr>sequest_call := \<lambda>h cmd. (None, toBase64 ''{}'', Some \<lparr>o_code = Some 0\<rparr>)\<rparr>)
     (client (Some 0)) ''{}'' = Inr (Some ''{}'') \<and>
   push (echo_env\<lparr>sequest_call := \<lambda>h cmd. (None, ''not base64 of anything'', Some \<lparr>o_code = Some 0\<rparr>),
                  ComponentObjects_fromString := \<lambda>s. Inl (Thrown ''bad objects'')\<rparr>)
     (client (Some 0)) ''{}'' = Inl (NetworkError ''not base64 of anything'')"
  using push_echo_or_decode_error [where this = "client (Some 0)" and h = 0
      and env = "echo_env\<lparr>sequest_call := \<lambda>h cmd. (None, toBase64 ''{}'', Some \<lparr>o_code = Some 0\<rparr>)\<rparr>"
      and objs = "''{}''" and err = None and oc = "\<lparr>o_code = Some 0\<rparr>"]
    push_echo_or_decode_error [where this = "client (Some 0)" 
      and env = "echo_env\<lparr>sequest_call := \<lambda>h cmd. (None, ''not base64 of anything'', Some \<lparr>o_code = Some 0\<rparr>),
                  ComponentObjects_fromString := \<lambda>s. Inl (Thrown ''bad objects'')\<rparr>"
      and objs = "''{}''" and str = "''not base64 of anything''" and e = "Thrown ''bad objects''"]
  by (simp add: echo_env_def client_def exec_def exec_callback_def)



text \<open>
  C6, as the spec states it, fails for \<open>fetch\<close>: an item that deserializes to \<open>null\<close>
  stays in the result.
\<close>

theorem fetch_keeps_nil_counterexample:
  "fetch (echo_env\<lparr>sequest_call := \<lambda>h cmd. (None, ''payload'', Some \<lparr>o_code = Some 0\<rparr>),
                   unpack := \<lambda>str. [''x'', ''null'', ''y'']\<rparr>)
     (client (Some 0)) [''a/b@1.0.0''] False
     = Inr [Some ''x'', None, Some ''y'']"
  by (simp add: fetch_def exec_def exec_callback_def promise_then_def echo_env_def client_def)

text \<open>
  C6, amended. \<open>list\<close>: given a successful payload whose items all deserialize (an empty
  item counts as \<open>null\<close> without being deserialized), the result is exactly the
  non-\<open>null\<close> results, in their order. \<open>fetch\<close>: given a successful payload whose items
  all deserialize, the result is the deserialization of every item, in order, \<open>null\<close>
  results included; \<open>fetch\<close> filters nothing.
\<close>

theorem list_rejects_nils_fetch_maps_all:
  "(exec env this ''_list'' [] = Inr str \<and>
    map (\<lambda>c. if c \<noteq> [] then ConsumerComponent_fromString env (Str c) else Inr None)
      (unpack env str) = map Inr cs
    \<longrightarrow> list_op env this = Inr (filter (\<lambda>x. x \<noteq> None) cs)) \<and>
   (exec env this (''_fetch '' @ (if noDeps then ''-n'' else [])) (map (BitId_toString env) ids)
      = Inr str' \<and>
    map (ComponentObjects_fromString env) (unpack env str') = map Inr bs
    \<longrightarrow> fetch env this ids noDeps = Inr bs)"
proof (intro conjI impI)
  assume a: "exec env this ''_list'' [] = Inr str \<and>
    map (\<lambda>c. if c \<noteq> [] then ConsumerComponent_fromString env (Str c) else Inr None)
      (unpack env str) = map Inr cs"
  then have "mapE (\<lambda>c. if c \<noteq> [] then ConsumerComponent_fromString env (Str c) else Inr None)
      (unpack env str) = Inr cs"
    by (simp add: mapE_Inr_iff)
  then show "list_op env this = Inr (filter (\<lambda>x. x \<noteq> None) cs)"
    using a by (simp add: list_op_def promise_then_Inr rejectNils_def)
next
  assume a: "exec env this (''_fetch '' @ (if noDeps then ''-n'' else []))
      (map (BitId_toString env) ids) = Inr str' \<and>
    map (ComponentObjects_fromString env) (unpack env str') = map Inr bs"
  then have "mapE (ComponentObjects_fromString env) (unpack env str') = Inr bs"
    by (simp add: mapE_Inr_iff)
  then show "fetch env this ids noDeps = Inr bs"
    using a by (simp add: fetch_def promise_then_Inr)
qed

theorem list_rejects_nils_fetch_maps_all_witness:
  "list_op (echo_env\<lparr>sequest_call := \<lambda>h cmd. (None, ''payload'', Some \<lparr>o_code = Some 0\<rparr>),
                     unpack := \<lambda>str. [''x'', [], ''y'']\<rparr>)
     (client (Some 0)) = Inr [Some ''x'', Some ''y''] \<and>
   fetch (echo_env\<lparr>sequest_call := \<lambda>h cmd. (None, ''payload'', Some \<lparr>o_code = Some 0\<rparr>),
                   unpack := \<lambda>str. [''x'', ''null'', ''y'']\<rparr>)
     (client (Some 0)) [''a/b@1.0.0''] True = Inr [Some ''x'', None, Some ''y'']"
  using list_rejects_nils_fetch_maps_all [where this = "client (Some 0)"
      and env = "echo_env\<lparr>sequest_call := \<lambda>h cmd. (None, ''payload'', Some \<lparr>o_code = Some 0\<rparr>),
                   unpack := \<lambda>str. [''x'', [], ''y'']\<rparr>"
      and str = "''payload''" and cs = "[Some ''x'', None, Some ''y'']"]
    list_rejects_nils_fetch_maps_all [where this = "client (Some 0)"
      and env = "echo_env\<lparr>sequest_call := \<lambda>h cmd. (None, ''payload'', Some \<lparr>o_code = Some 0\<rparr>),
                   unpack := \<lambda>str. [''x'', ''null'', ''y'']\<rparr>"
      and noDeps = True and ids = "[''a/b@1.0.0'']"
      and str' = "''payload''" and bs = "[Some ''x'', None, Some ''y'']"]
  by (simp add: echo_env_def client_def exec_def exec_callback_def)




text \<open>
  C8. When the \<open>_show\<close> command succeeds with an empty payload (the remote wrote
  nothing, or a single newline, which \<open>exec\<close> removes), \<open>show\<close> resolves with
  \<open>null\<close> (no component) and does not fail. With a non-empty payload it makes exactly one
  call to the component deserializer, on the unpacked payload, and its outcome is the
  outcome of \<open>show\<close>.
\<close>

theorem show_empty_payload:
  "(exec env this ''_show'' [BitId_toString env i] = Inr [] \<longrightarrow> show_op env this i = Inr None) \<and>
   (connection this = Some h \<and>
    sequest_call env h (buildCmd ''_show'' [absolutePath (path this), BitId_toString env i])
      = (err, res, Some oc) \<and>
    (err = None \<or> \<not> nonzero (o_code oc)) \<and> (res = [] \<or> res = [CHR 0x0A])
    \<longrightarrow> show_op env this i = Inr None) \<and>
   (exec env this ''_show'' [BitId_toString env i] = Inr str \<and> str \<noteq> [] \<longrightarrow>
      show_op env this i = ConsumerComponent_fromString env (Arr (unpack env str)))"
proof (intro conjI impI)
  assume "exec env this ''_show'' [BitId_toString env i] = Inr []"
  then show "show_op env this i = Inr None"
    by (simp add: show_op_def promise_then_Inr)
next
  assume a: "connection this = Some h \<and>
    sequest_call env h (buildCmd ''_show'' [absolutePath (path this), BitId_toString env i])
      = (err, res, Some oc) \<and>
    (err = None \<or> \<not> nonzero (o_code oc)) \<and> (res = [] \<or> res = [CHR 0x0A])"
  then have "clean res = []"
    by auto
  with a have "exec env this ''_show'' [BitId_toString env i] = Inr []"
    by (simp add: exec_Some exec_callback_success)
  then show "show_op env this i = Inr None"
    by (simp add: show_op_def promise_then_Inr)
next
  assume "exec env this ''_show'' [BitId_toString env i] = Inr str \<and> str \<noteq> []"
  then show "show_op env this i = ConsumerComponent_fromString env (Arr (unpack env str))"
    by (simp add: show_op_def promise_then_Inr)
qed

theorem show_empty_payload_witness:
  "show_op (echo_env\<lparr>sequest_call := \<lambda>h cmd. (None, [CHR 0x0A], Some \<lparr>o_code = Some 0\<rparr>)\<rparr>)
     (client (Some 0)) ''a/b'' = Inr None \<and>
   show_op (echo_env\<lparr>sequest_call := \<lambda>h cmd. (None, ''xyz'', Some \<lparr>o_code = Some 0\<rparr>)\<rparr>)
     (client (Some 0)) ''a/b'' = Inr (Some ''xyz'')"
  using show_empty_payload [where this = "client (Some 0)" and i = "''a/b''" and h = 0
      and err = None and res = "[CHR 0x0A]" and oc = "\<lparr>o_code = Some 0\<rparr>"
      and env = "echo_env\<lparr>sequest_call := \<lambda>h cmd. (None, [CHR 0x0A], Some \<lparr>o_code = Some 0\<rparr>)\<rparr>"]
    show_empty_payload [where this = "client (Some 0)" and i = "''a/b''" and str = "''xyz''"
      and env = "echo_env\<lparr>sequest_call := \<lambda>h cmd. (None, ''xyz'', Some \<lparr>o_code = Some 0\<rparr>)\<rparr>"]
  by (simp add: echo_env_def client_def exec_def exec_callback_def)

text \<open>
  C9, as the spec states it, fails. \<open>connect\<close> settles as soon as the library has
  returned a handle, without any exchange on the channel. With a library that returns a
  handle whose channel never comes up (no command on it ever completes), \<open>connect\<close>
  still resolves, and the failure appears only at the first command, as
  \<open>UnexpectedNetworkError\<close> from \<open>exec\<close>.
\<close>

theorem connect_unusable_handle_counterexample:
  "connect (echo_env\<lparr>sequest_call := \<lambda>h cmd. (None, [], None)\<rparr>) (client None)
     ''ssh://git@example.org:22/tmp/scope'' (Some ''key'') = Inr (client (Some 0)) \<and>
   exec (echo_env\<lparr>sequest_call := \<lambda>h cmd. (None, [], None)\<rparr>) (client (Some 0)) ''_list'' []
     = Inl UnexpectedNetworkError"
  by (simp add: connect_def exec_def exec_callback_def echo_env_def client_def)

text \<open>
  C9, amended. \<open>connect\<close> rejects exactly when loading the key or creating the channel
  handle throws, with what was thrown, and before any command is sent. Otherwise it
  resolves at once with the client holding the new handle. It does not wait for the
  channel to be established and does not check it: its outcome does not depend on how
  the channel answers commands, and a handle whose channel delivers no completion record
  makes the later \<open>exec\<close> fail with \<open>UnexpectedNetworkError\<close>, not \<open>connect\<close>.
\<close>

theorem connect_settles_without_handshake:
  "(keyGetter env key = Inl e \<longrightarrow> connect env this sshUrl key = Inl e) \<and>
   (keyGetter env key = Inr k \<and> sequest_connect env (composeConnectionUrl this) k = Inl e \<longrightarrow>
      connect env this sshUrl key = Inl e) \<and>
   (keyGetter env key = Inr k \<and> sequest_connect env (composeConnectionUrl this) k = Inr conn \<longrightarrow>
      connect env this sshUrl key = Inr (this\<lparr>connection := Some conn\<rparr>)) \<and>
   (connect env this sshUrl key = Inr this' \<longrightarrow>
      (\<exists>k conn. keyGetter env key = Inr k \<and>
         sequest_connect env (composeConnectionUrl this) k = Inr conn \<and>
         this' = this\<lparr>connection := Some conn\<rparr>)) \<and>
   connect (env\<lparr>sequest_call := f\<rparr>) this sshUrl key = connect env this sshUrl key \<and>
   (keyGetter env key = Inr k \<and> sequest_connect env (composeConnectionUrl this) k = Inr conn \<and>
    sequest_call env conn (buildCmd commandName (absolutePath (path this) # args))
      = (err, res, None) \<longrightarrow>
      connect env this sshUrl key = Inr (this\<lparr>connection := Some conn\<rparr>) \<and>
      exec env (this\<lparr>connection := Some conn\<rparr>) commandName args = Inl UnexpectedNetworkError)"
proof -
  have 1: "keyGetter env key = Inl e \<longrightarrow> connect env this sshUrl key = Inl e"
    by (simp add: connect_def)
  have 2: "keyGetter env key = Inr k \<and> sequest_connect env (composeConnectionUrl this) k = Inl e \<longrightarrow>
      connect env this sshUrl key = Inl e"
    by (simp add: connect_def)
  have 3: "keyGetter env key = Inr k \<and> sequest_connect env (composeConnectionUrl this) k = Inr conn \<longrightarrow>
      connect env this sshUrl key = Inr (this\<lparr>connection := Some conn\<rparr>)"
    by (simp add: connect_def)
  have 4: "connect env this sshUrl key = Inr this' \<longrightarrow>
      (\<exists>k conn. keyGetter env key = Inr k \<and>
         sequest_connect env (composeConnectionUrl this) k = Inr conn \<and>
         this' = this\<lparr>connection := Some conn\<rparr>)"
    by (simp add: connect_Inr_iff)
  have 5: "connect (env\<lparr>sequest_call := f\<rparr>) this sshUrl key = connect env this sshUrl key"
    by (simp add: connect_def split: sum.splits)
  have 6: "sequest_call env conn (buildCmd commandName (absolutePath (path this) # args))
      = (err, res, None) \<longrightarrow>
      exec env (this\<lparr>connection := Some conn\<rparr>) commandName args = Inl UnexpectedNetworkError"
    by (simp add: exec_def exec_callback_def)
  from 1 2 3 4 5 6 show ?thesis
    by blast
qed

theorem connect_settles_without_handshake_witness:
  "connect echo_env (client None) ''ssh://git@example.org:22/tmp/scope'' None = Inl (Thrown ''no key'') \<and>
   connect (echo_env\<lparr>sequest_connect := \<lambda>url k. Inl (Thrown ''bad key format'')\<rparr>) (client None)
     ''ssh://git@example.org:22/tmp/scope'' (Some ''key'') = Inl (Thrown ''bad key format'') \<and>
   connect (echo_env\<lparr>sequest_call := \<lambda>h cmd. (None, [], None)\<rparr>) (client None)
     ''ssh://git@example.org:22/tmp/scope'' (Some ''key'') = Inr (client (Some 0)) \<and>
   exec (echo_env\<lparr>sequest_call := \<lambda>h cmd. (None, [], None)\<rparr>) (client (Some 0)) ''_list'' []
     = Inl UnexpectedNetworkError"
proof -
  have a: "connect echo_env (client None) ''ssh://git@example.org:22/tmp/scope'' None
      = Inl (Thrown ''no key'')"
    using connect_settles_without_handshake [where env = echo_env and this = "client None"
        and key = None and e = "Thrown ''no key''" and k = "[]" and conn = 0
        and this' = "client None" and f = "\<lambda>h cmd. (None, [], None)"
        and commandName = "[]" and args = "[]" and err = None and res = "[]"
        and sshUrl = "''ssh://git@example.org:22/tmp/scope''"]
    by (simp add: echo_env_def)
  have b: "connect (echo_env\<lparr>sequest_connect := \<lambda>url k. Inl (Thrown ''bad key format'')\<rparr>)
      (client None) ''ssh://git@example.org:22/tmp/scope'' (Some ''key'')
      = Inl (Thrown ''bad key format'')"
    using connect_settles_without_handshake [where this = "client None"
        and env = "echo_env\<lparr>sequest_connect := \<lambda>url k. Inl (Thrown ''bad key format'')\<rparr>"
        and key = "Some ''key''" and k = "''key''" and e = "Thrown ''bad key format''"
        and conn = 0 and this' = "client None" and f = "\<lambda>h cmd. (None, [], None)"
        and commandName = "[]" and args = "[]" and err = None and res = "[]"
        and sshUrl = "''ssh://git@example.org:22/tmp/scope''"]
    by (simp add: echo_env_def)
  have c: "connect (echo_env\<lparr>sequest_call := \<lambda>h cmd. (None, [], None)\<rparr>) (client None)
      ''ssh://git@example.org:22/tmp/scope'' (Some ''key'') = Inr (client (Some 0)) \<and>
    exec (echo_env\<lparr>sequest_call := \<lambda>h cmd. (None, [], None)\<rparr>) (client (Some 0)) ''_list'' []
      = Inl UnexpectedNetworkError"
    using connect_settles_without_handshake [where this = "client None"
        and env = "echo_env\<lparr>sequest_call := \<lambda>h cmd. (None, [], None)\<rparr>"
        and key = "Some ''key''" and k = "''key''" and conn = 0 and e = TypeError
        and this' = "client (Some 0)" and f = "\<lambda>h cmd. (None, [], None)"
        and commandName = "''_list''" and args = "[]" and err = None and res = "[]"
        and sshUrl = "''ssh://git@example.org:22/tmp/scope''"]
    by (simp add: echo_env_def client_def)
  from a b c show ?thesis
    by simp
qed

end
